theory Spec2Isabelle
  imports Main "HOL-Library.Sublist" "HOL-Library.Multiset"
begin

section \<open>Python strings\<close>

text \<open>
  A Python \<open>str\<close> is modelled as a \<open>string\<close> (a list of 8-bit characters). The
  model covers names written in ASCII: \<open>str.lower\<close> maps the letters \<open>A\<close>..\<open>Z\<close> to
  \<open>a\<close>..\<open>z\<close> and leaves every other character alone. All keyword markers of the
  program are lower-case ASCII.
\<close>

definition lower_char :: "char \<Rightarrow> char" where
  "lower_char c =
     (let n = (of_char c :: nat) in if 65 \<le> n \<and> n \<le> 90 then char_of (n + 32) else c)"

definition lower :: "string \<Rightarrow> string" where
  "lower s = map lower_char s"

text \<open>Python's \<open>sub in s\<close> on strings: \<open>sub\<close> occurs in \<open>s\<close> as a contiguous block.\<close>

fun contains :: "string \<Rightarrow> string \<Rightarrow> bool" where
  "contains sub [] = (sub = [])"
| "contains sub (c # cs) = (prefix sub (c # cs) \<or> contains sub cs)"

section \<open>Scene Generator\<close>

subsection \<open>Part-type lookup: \<open>component_to_wokwi_part\<close>\<close>

text \<open>The result \<open>None\<close> is Python's \<open>None\<close>: the component has no simulator part.\<close>

definition component_to_wokwi_part :: "string \<Rightarrow> string option" where
  "component_to_wokwi_part name =
     (let n = lower name in
      if contains ''dht'' n then Some ''wokwi-dht11''
      else if contains ''ultrasonic'' n \<or> contains ''hc-sr04'' n then Some ''wokwi-hc-sr04''
      else if contains ''lcd'' n then Some ''wokwi-lcd1602''
      else if contains ''oled'' n then Some ''wokwi-ssd1306''
      else if contains ''relay'' n then Some ''wokwi-relay''
      else if contains ''servo'' n then Some ''wokwi-servo''
      else if contains ''led'' n then Some ''wokwi-led''
      else if contains ''buzzer'' n then Some ''wokwi-buzzer''
      else if contains ''gas'' n \<or> contains ''mq'' n then Some ''wokwi-mq2''
      else None)"

text \<open>
  The lookup as the specification words it: an ordered table of rules, each a list of
  alternative markers and a part type; the first rule with a marker occurring in the
  lower-cased name wins.
\<close>

definition part_rules :: "(string list \<times> string) list" where
  "part_rules =
     [([''dht''], ''wokwi-dht11''),
      ([''ultrasonic'', ''hc-sr04''], ''wokwi-hc-sr04''),
      ([''lcd''], ''wokwi-lcd1602''),
      ([''oled''], ''wokwi-ssd1306''),
      ([''relay''], ''wokwi-relay''),
      ([''servo''], ''wokwi-servo''),
      ([''led''], ''wokwi-led''),
      ([''buzzer''], ''wokwi-buzzer''),
      ([''gas'', ''mq''], ''wokwi-mq2'')]"

fun first_matching_rule :: "(string list \<times> string) list \<Rightarrow> string \<Rightarrow> string option" where
  "first_matching_rule [] n = None"
| "first_matching_rule ((markers, part) # rules) n =
     (if list_ex (\<lambda>m. contains m n) markers then Some part else first_matching_rule rules n)"

subsection \<open>Board selection and simulator link\<close>

text \<open>Lines 136-141 of \<open>generate_wokwi_diagram\<close>: the board part type.\<close>

definition select_board :: "string \<Rightarrow> string" where
  "select_board mcu =
     (if contains ''esp32'' (lower mcu) then ''wokwi-esp32-devkit-v1''
      else if contains ''esp8266'' (lower mcu) then ''wokwi-esp8266''
      else ''wokwi-arduino-uno'')"

definition get_wokwi_link :: "string \<Rightarrow> string" where
  "get_wokwi_link mcu0 =
     (let mcu = lower mcu0 in
      if contains ''esp32'' mcu then ''https://wokwi.com/projects/new/esp32''
      else if contains ''esp8266'' mcu then ''https://wokwi.com/projects/new/esp8266''
      else ''https://wokwi.com/projects/new/arduino-uno'')"

subsection \<open>Scene document: \<open>generate_wokwi_diagram\<close>\<close>

text \<open>
  The scene document is the dictionary \<open>diagram\<close> that the source builds; the source
  returns its JSON text (\<open>json.dumps\<close>), a printing step that is not modelled.
  A part is one dictionary of the \<open>parts\<close> list.
\<close>

record part =
  part_id :: string
  part_type :: string
  part_top :: int
  part_left :: int

record diagram =
  version :: int
  author :: string
  editor :: string
  parts :: "part list"
  connections :: "string list list"

text \<open>The decimal text of a non-negative integer, as the f-string \<open>f"p{idx}"\<close> prints it.\<close>

definition digit_char :: "nat \<Rightarrow> char" where
  "digit_char d = char_of (48 + d)"

fun str_nat :: "nat \<Rightarrow> string" where
  "str_nat n = (if n < 10 then [digit_char n] else str_nat (n div 10) @ [digit_char (n mod 10)])"

declare str_nat.simps [simp del]

text \<open>
  The loop over \<open>components\<close> (lines 154-167), with the loop variables \<open>x\<close>, \<open>y\<close>,
  \<open>idx\<close> and the list \<open>parts\<close> passed along.
\<close>

fun place_parts :: "string list \<Rightarrow> int \<Rightarrow> int \<Rightarrow> nat \<Rightarrow> part list \<Rightarrow> part list" where
  "place_parts [] x y idx ps = ps"
| "place_parts (c # cs) x y idx ps =
     (case component_to_wokwi_part c of
        None \<Rightarrow> place_parts cs x y idx ps
      | Some p \<Rightarrow>
          (let ps' = ps @ [\<lparr>part_id = ''p'' @ str_nat idx, part_type = p, part_top = y, part_left = x\<rparr>];
               idx' = idx + 1;
               x' = x + 120
           in if x' > 180 then place_parts cs (- 180) (y + 120) idx' ps'
              else place_parts cs x' y idx' ps'))"

definition generate_wokwi_diagram :: "string \<Rightarrow> string list \<Rightarrow> diagram" where
  "generate_wokwi_diagram mcu components =
     \<lparr>version = 1,
      author = ''IoT GPT'',
      editor = ''wokwi'',
      parts = place_parts components (- 180) 140 0
                [\<lparr>part_id = ''mcu'', part_type = select_board mcu, part_top = 0, part_left = 0\<rparr>],
      connections = []\<rparr>"

text \<open>
  The layout as the specification words it: the grid cursor starts at
  \<open>(left, top) = (-180, 140)\<close>; after a placement left advances by 120, and when it
  then exceeds 180 it is reset to -180 and top advances by 120.
\<close>

definition grid_start :: "int \<times> int" where
  "grid_start = (- 180, 140)"

definition grid_next :: "int \<times> int \<Rightarrow> int \<times> int" where
  "grid_next p = (if fst p + 120 > 180 then (- 180, snd p + 120) else (fst p + 120, snd p))"

text \<open>The part types of the components that resolve, in input order.\<close>

definition resolved_parts :: "string list \<Rightarrow> string list" where
  "resolved_parts components = List.map_filter component_to_wokwi_part components"

text \<open>
  The closed form of the layout: the \<open>k\<close>-th placed part (counting from 0) sits in
  column \<open>k mod 4\<close> and row \<open>k div 4\<close> of the grid.
\<close>

definition grid_left :: "nat \<Rightarrow> int" where
  "grid_left k = - 180 + 120 * int (k mod 4)"

definition grid_top :: "nat \<Rightarrow> int" where
  "grid_top k = 140 + 120 * int (k div 4)"

definition placed :: "nat \<Rightarrow> string \<Rightarrow> part" where
  "placed k p =
     \<lparr>part_id = ''p'' @ str_nat k, part_type = p, part_top = grid_top k, part_left = grid_left k\<rparr>"

definition board_part :: "string \<Rightarrow> part" where
  "board_part mcu =
     \<lparr>part_id = ''mcu'', part_type = select_board mcu, part_top = 0, part_left = 0\<rparr>"

text \<open>The number that a decimal text denotes.\<close>

definition digits_value :: "string \<Rightarrow> nat" where
  "digits_value s = foldl (\<lambda>a c. 10 * a + (of_char c - 48)) 0 s"

section \<open>Domain Classifier: \<open>detect_domains\<close>\<close>

text \<open>
  The Python set \<open>domains\<close> is kept as a duplicate-free list in order of first
  insertion; \<open>set_add\<close> is \<open>set.add\<close>. The order in which \<open>list(domains)\<close> lists
  the elements is not fixed by Python, so the results below speak about the set of
  the returned list, and the Progression Engine is shown not to depend on the order.
\<close>

definition set_add :: "'a \<Rightarrow> 'a list \<Rightarrow> 'a list" where
  "set_add x xs = (if x \<in> set xs then xs else xs @ [x])"

text \<open>\<open>any(x in t for x in markers)\<close>\<close>

definition any_in :: "string list \<Rightarrow> string \<Rightarrow> bool" where
  "any_in markers t = list_ex (\<lambda>x. contains x t) markers"

definition detect_step :: "string list \<Rightarrow> string \<Rightarrow> string list" where
  "detect_step domains c =
     (let t = lower c;
          d1 = (if any_in [''sensor'', ''dht'', ''mq'', ''ultrasonic'', ''ir''] t
                then set_add ''sensor'' domains else domains);
          d2 = (if any_in [''lcd'', ''oled'', ''display''] t
                then set_add ''display'' d1 else d1);
          d3 = (if any_in [''wifi'', ''cloud'', ''mqtt'', ''thingspeak'', ''esp''] t
                then set_add ''cloud'' d2 else d2);
          d4 = (if any_in [''relay'', ''motor'', ''buzzer'', ''pump'', ''servo''] t
                then set_add ''actuator'' d3 else d3)
      in d4)"

definition detect_domains :: "string list \<Rightarrow> string list" where
  "detect_domains components = foldl detect_step [] components"

text \<open>The marker table as the specification lists it.\<close>

fun markers_of :: "string \<Rightarrow> string list" where
  "markers_of tag =
     (if tag = ''sensor'' then [''sensor'', ''dht'', ''mq'', ''ultrasonic'', ''ir'']
      else if tag = ''display'' then [''lcd'', ''oled'', ''display'']
      else if tag = ''cloud'' then [''wifi'', ''cloud'', ''mqtt'', ''thingspeak'', ''esp'']
      else if tag = ''actuator'' then [''relay'', ''motor'', ''buzzer'', ''pump'', ''servo'']
      else [])"

definition domain_tags :: "string list" where
  "domain_tags = [''sensor'', ''display'', ''cloud'', ''actuator'']"

text \<open>The tags that one component name contributes.\<close>

definition tags_of :: "string \<Rightarrow> string set" where
  "tags_of c = {tag \<in> set domain_tags. any_in (markers_of tag) (lower c)}"

section \<open>Persistent state\<close>

text \<open>
  The three tables of the database. A row of \<open>users\<close> is found by its \<open>id\<close>; of
  its columns the model keeps \<open>xp\<close>, \<open>streak\<close> and \<open>last_visit\<close>. A calendar date
  is its day number (the proleptic Gregorian ordinal), so that the difference of two
  dates in days is a subtraction; the ISO text stored in the column stands for that
  number, and \<open>None\<close> is the SQL \<open>NULL\<close> of a user that was never scored. The tables
  \<open>domains_used\<close> and \<open>chats\<close> are lists of rows in insertion order.
\<close>

record user =
  xp :: int
  streak :: int
  last_visit :: "int option"

record db =
  users :: "int \<rightharpoonup> user"
  domains_used :: "(int \<times> string) list"
  chats :: "(int \<times> string) list"

datatype error =
    TypeError | KeyError | AttributeError | ValueError | IndexError
  | JSONDecodeError | UpstreamError

section \<open>Progression Engine: \<open>update_xp_and_streak\<close>\<close>

text \<open>Lines 222-229: the streak, from the row's \<open>last_visit\<close> and today's date.\<close>

definition next_streak :: "int \<Rightarrow> int option \<Rightarrow> int \<Rightarrow> int" where
  "next_streak today lv s =
     (case lv of
        Some last_day \<Rightarrow>
          (if today - last_day = 1 then s + 1
           else if today - last_day > 1 then 1
           else s)
      | None \<Rightarrow> 1)"

text \<open>
  Lines 233-239: the loop over \<open>domains\<close>, with the running \<open>gained_xp\<close> and the rows
  of \<open>domains_used\<close>. The \<open>SELECT\<close> finds a row exactly when the pair is in the table.
\<close>

fun award_domains :: "int \<Rightarrow> string list \<Rightarrow> (int \<times> string) list \<Rightarrow> int
    \<Rightarrow> int \<times> (int \<times> string) list" where
  "award_domains uid [] du gained = (gained, du)"
| "award_domains uid (d # ds) du gained =
     (if (uid, d) \<in> set du then award_domains uid ds du (gained + 5)
      else award_domains uid ds (du @ [(uid, d)]) (gained + 30))"

text \<open>Lines 241-243: the flat bonuses.\<close>

definition flat_bonus :: "string list \<Rightarrow> int" where
  "flat_bonus domains =
     (if ''cloud'' \<in> set domains then 30 else 0)
   + (if ''display'' \<in> set domains then 20 else 0)
   + (if ''actuator'' \<in> set domains then 20 else 0)"

text \<open>
  The whole call. Unpacking the row of a user id that is not in \<open>users\<close> raises
  \<open>TypeError\<close> before anything is written. On success the result is the committed
  database and the triple \<open>(xp, streak, gained_xp)\<close>. The day \<open>today\<close> is what
  \<open>date.today()\<close> returns during the call.
\<close>

definition update_xp_and_streak ::
    "db \<Rightarrow> int \<Rightarrow> int \<Rightarrow> string list \<Rightarrow> error + (db \<times> int \<times> int \<times> int)" where
  "update_xp_and_streak d user_id today domains =
     (case users d user_id of
        None \<Rightarrow> Inl TypeError
      | Some u \<Rightarrow>
          (let streak' = next_streak today (last_visit u) (streak u);
               (g, du') = award_domains user_id domains (domains_used d) 0;
               gained_xp = g + flat_bonus domains;
               xp' = xp u + gained_xp
           in Inr (d\<lparr>users := (users d)(user_id \<mapsto>
                         u\<lparr>xp := xp', streak := streak', last_visit := Some today\<rparr>),
                      domains_used := du'\<rparr>,
                   xp', streak', gained_xp)))"

text \<open>A database with one user, of id 1, and no rows in the other tables.\<close>

definition single_user_db :: "user \<Rightarrow> db" where
  "single_user_db u = \<lparr>users = [1 \<mapsto> u], domains_used = [], chats = []\<rparr>"

text \<open>
  The XP rule as the specification words it: 5 for a domain already recorded for the
  user and 30 for a new one, summed over the detected domains, plus the flat bonuses.
\<close>

definition domain_award :: "db \<Rightarrow> int \<Rightarrow> string \<Rightarrow> int" where
  "domain_award d user_id tag = (if (user_id, tag) \<in> set (domains_used d) then 5 else 30)"

definition xp_gain :: "db \<Rightarrow> int \<Rightarrow> string list \<Rightarrow> int" where
  "xp_gain d user_id domains =
     (\<Sum>tag\<leftarrow>domains. domain_award d user_id tag)
   + (if ''cloud'' \<in> set domains then 30 else 0)
   + (if ''display'' \<in> set domains then 20 else 0)
   + (if ''actuator'' \<in> set domains then 20 else 0)"

section \<open>Design Request Orchestrator: \<open>get_ai_design\<close>\<close>

text \<open>A parsed JSON document, as \<open>json.loads\<close> returns it. An object is its list of
  key-value pairs, read with \<open>map_of\<close>.\<close>

datatype json =
    JNull | JBool bool | JNum int | JStr string
  | JArr "json list" | JObj "(string \<times> json) list"

text \<open>\<open>str.strip()\<close>: the white space of ASCII is removed at both ends.\<close>

definition is_space :: "char \<Rightarrow> bool" where
  "is_space c = (let n = (of_char c :: nat) in (9 \<le> n \<and> n \<le> 13) \<or> (28 \<le> n \<and> n \<le> 32))"

definition strip :: "string \<Rightarrow> string" where
  "strip s = rev (dropWhile is_space (rev (dropWhile is_space s)))"

text \<open>\<open>str.split(sep)\<close> for a non-empty separator: \<open>cur\<close> holds, reversed, the piece
  being read.\<close>

function split_from :: "string \<Rightarrow> string \<Rightarrow> string \<Rightarrow> string list" where
  "split_from sep cur [] = [rev cur]"
| "split_from sep cur (c # cs) =
     (if sep \<noteq> [] \<and> prefix sep (c # cs)
      then rev cur # split_from sep [] (drop (length sep) (c # cs))
      else split_from sep (c # cur) cs)"
  by pat_completeness auto
termination
  by (relation "measure (\<lambda>(sep, cur, s). length s)") auto

definition split_str :: "string \<Rightarrow> string \<Rightarrow> error + string list" where
  "split_str s sep = (if sep = [] then Inl ValueError else Inr (split_from sep [] s))"

definition fence :: string where
  "fence = ''```''"

text \<open>Lines 97-100: the text that is handed to \<open>json.loads\<close>.\<close>

definition response_text :: "string \<Rightarrow> error + string" where
  "response_text content =
     (let text = strip content in
      if prefix fence text then
        (case split_str text fence of
           Inl e \<Rightarrow> Inl e
         | Inr pieces \<Rightarrow> (case pieces of _ # piece # _ \<Rightarrow> Inr piece | _ \<Rightarrow> Inl IndexError))
      else Inr text)"

text \<open>
  The call of the external model and \<open>json.loads\<close> belong to libraries, so they are
  parameters: \<open>response\<close> is what the model call gives, the message content or the
  error it raised, and \<open>loads\<close> is the parser, which returns a document or raises.
\<close>

definition get_ai_design :: "(string \<Rightarrow> error + json) \<Rightarrow> error + string \<Rightarrow> error + json" where
  "get_ai_design loads response =
     (case response of
        Inl e \<Rightarrow> Inl e
      | Inr content \<Rightarrow>
          (case response_text content of
             Inl e \<Rightarrow> Inl e
           | Inr text \<Rightarrow> loads text))"

section \<open>Interaction handler: \<open>home\<close>\<close>

text \<open>
  What Python does with the parsed document: \<open>data[key]\<close> raises \<open>KeyError\<close> on a
  dictionary without the key and \<open>TypeError\<close> on anything that is not a dictionary;
  a \<open>for\<close> loop runs over the items of a list, the characters of a string and the
  keys of a dictionary, and raises \<open>TypeError\<close> on the rest; \<open>.lower()\<close> exists on
  strings only.
\<close>

fun subscript :: "json \<Rightarrow> string \<Rightarrow> error + json" where
  "subscript (JObj kvs) k = (case map_of kvs k of None \<Rightarrow> Inl KeyError | Some v \<Rightarrow> Inr v)"
| "subscript _ k = Inl TypeError"

fun iter_items :: "json \<Rightarrow> error + json list" where
  "iter_items (JArr xs) = Inr xs"
| "iter_items (JStr s) = Inr (map (\<lambda>c. JStr [c]) s)"
| "iter_items (JObj kvs) = Inr (map (\<lambda>kv. JStr (fst kv)) kvs)"
| "iter_items _ = Inl TypeError"

fun str_receiver :: "json \<Rightarrow> error + string" where
  "str_receiver (JStr s) = Inr s"
| "str_receiver _ = Inl AttributeError"

fun names_of :: "json list \<Rightarrow> error + string list" where
  "names_of [] = Inr []"
| "names_of (x # xs) =
     (case str_receiver x of
        Inl e \<Rightarrow> Inl e
      | Inr s \<Rightarrow> (case names_of xs of Inl e \<Rightarrow> Inl e | Inr ns \<Rightarrow> Inr (s # ns)))"

text \<open>The names that a loop \<open>for c in components: ... c.lower() ...\<close> works on.\<close>

definition component_names :: "json \<Rightarrow> error + string list" where
  "component_names components =
     (case iter_items components of Inl e \<Rightarrow> Inl e | Inr items \<Rightarrow> names_of items)"

fun truthy :: "json \<Rightarrow> bool" where
  "truthy JNull = False"
| "truthy (JBool b) = b"
| "truthy (JNum n) = (n \<noteq> 0)"
| "truthy (JStr s) = (s \<noteq> [])"
| "truthy (JArr xs) = (xs \<noteq> [])"
| "truthy (JObj kvs) = (kvs \<noteq> [])"

text \<open>The local variables of \<open>home\<close> that the template receives.\<close>

record locals =
  l_data :: "json option"
  l_xp :: int
  l_streak :: int
  l_gained :: "int option"
  l_sim_link :: "string option"
  l_wokwi_json :: "diagram option"

text \<open>
  Lines 321-340: the \<open>try\<close> block with its \<open>except\<close>, which prints the exception and
  goes on. Every raise leaves the block with the database and the variables as they
  are at that point; \<open>update_xp_and_streak\<close> has committed when it returns.
  The argument \<open>design\<close> is the outcome of \<open>get_ai_design(project)\<close>.
\<close>

definition home_try ::
    "db \<Rightarrow> locals \<Rightarrow> int \<Rightarrow> string \<Rightarrow> int \<Rightarrow> error + json \<Rightarrow> db \<times> locals" where
  "home_try d l user_id project today design =
     (case design of
        Inl e \<Rightarrow> (d, l)
      | Inr data \<Rightarrow>
     (let l1 = l\<lparr>l_data := Some data\<rparr> in
      case subscript data ''components'' of
        Inl e \<Rightarrow> (d, l1)
      | Inr components \<Rightarrow>
     (case component_names components of
        Inl e \<Rightarrow> (d, l1)
      | Inr names \<Rightarrow>
     (case update_xp_and_streak d user_id today (detect_domains names) of
        Inl e \<Rightarrow> (d, l1)
      | Inr (d1, xp', streak', gained) \<Rightarrow>
     (let l2 = l1\<lparr>l_xp := xp', l_streak := streak', l_gained := Some gained\<rparr> in
      case subscript data ''microcontroller'' of
        Inl e \<Rightarrow> (d1, l2)
      | Inr m \<Rightarrow>
     (case str_receiver m of
        Inl e \<Rightarrow> (d1, l2)
      | Inr mcu \<Rightarrow>
     (let l3 = l2\<lparr>l_sim_link := Some (get_wokwi_link mcu)\<rparr>;
          l4 = l3\<lparr>l_wokwi_json := Some (generate_wokwi_diagram mcu names)\<rparr>
      in (d1\<lparr>chats := chats d1 @ [(user_id, project)]\<rparr>, l4))))))))"

definition required_fields :: "string list" where
  "required_fields =
     [''introduction'', ''microcontroller'', ''components'', ''pin_config'',
      ''algorithm'', ''flowchart'', ''arduino_code'']"

text \<open>Lines 351-357: the first \<open>data[key]\<close> that raises, if any.\<close>

fun read_fields :: "json \<Rightarrow> string list \<Rightarrow> error option" where
  "read_fields data [] = None"
| "read_fields data (k # ks) =
     (case subscript data k of Inl e \<Rightarrow> Some e | Inr v \<Rightarrow> read_fields data ks)"

text \<open>
  A POST request of the logged-in user \<open>user_id\<close>. The result is the database after
  the request and either the arguments of the template or the exception that ends
  the request.
\<close>

definition home_post ::
    "db \<Rightarrow> int \<Rightarrow> string \<Rightarrow> int \<Rightarrow> error + json \<Rightarrow> db \<times> (error + locals)" where
  "home_post d user_id project today design =
     (case users d user_id of
        None \<Rightarrow> (d, Inl TypeError)
      | Some u \<Rightarrow>
          (let l0 = \<lparr>l_data = None, l_xp = xp u, l_streak = streak u, l_gained = None,
                     l_sim_link = None, l_wokwi_json = None\<rparr>;
               (d', l) = home_try d l0 user_id project today design
           in (d',
               case l_data l of
                 None \<Rightarrow> Inr l
               | Some data \<Rightarrow>
                   (if truthy data
                    then (case read_fields data required_fields of
                            Some e \<Rightarrow> Inl e | None \<Rightarrow> Inr l)
                    else Inr l))))"

definition home ::
    "(string \<Rightarrow> error + json) \<Rightarrow> db \<Rightarrow> int \<Rightarrow> string \<Rightarrow> int \<Rightarrow> error + string
      \<Rightarrow> db \<times> (error + locals)" where
  "home loads d user_id project today response =
     home_post d user_id project today (get_ai_design loads response)"

text \<open>
  The failure of a design request as the specification words it: the model call or
  the parsing raised, or the document lacks one of the seven fields.
\<close>

definition design_request_fails :: "error + json \<Rightarrow> bool" where
  "design_request_fails design =
     (case design of
        Inl e \<Rightarrow> True
      | Inr data \<Rightarrow> list_ex (\<lambda>k. isl (subscript data k)) required_fields)"

section \<open>Example data\<close>

text \<open>A response text of the expected schema, and a parsed document that has every field
  but \<open>microcontroller\<close>.\<close>

definition example_document :: string where
  \<open>example_document =
     ''{"introduction": "A lamp", "microcontroller": "ESP32", "components": ["DHT11"], '' @
     ''"pin_config": ["DATA to D4"], "algorithm": ["1", "2", "3", "4", "5", "6", "7"], '' @
     ''"flowchart": "flowchart TD", "arduino_code": "void loop() {}"}''\<close>

definition document_without_microcontroller :: json where
  "document_without_microcontroller =
     JObj [(''introduction'', JStr ''A lamp''),
           (''components'', JArr [JStr ''DHT11'']),
           (''pin_config'', JArr [JStr ''DATA to D4'']),
           (''algorithm'', JArr [JStr ''1'', JStr ''2'', JStr ''3'', JStr ''4'', JStr ''5'',
                                 JStr ''6'', JStr ''7'']),
           (''flowchart'', JStr ''flowchart TD''),
           (''arduino_code'', JStr ''void loop() {}'')]"

section \<open>Facts about strings\<close>

lemma contains_sublist: "contains sub s = sublist sub s"
  by (induction s) (simp_all add: sublist_Cons_right)

lemma contains_iff: "contains sub s \<longleftrightarrow> (\<exists>ps ss. s = ps @ sub @ ss)"
  by (simp add: contains_sublist sublist_def)

lemma lower_char_idem: "lower_char (lower_char c) = lower_char c"
  by (auto simp: lower_char_def Let_def)

lemma lower_idem: "lower (lower s) = lower s"
  by (simp add: lower_def lower_char_idem)

section \<open>The part-type lookup\<close>

lemma first_matching_rule_part_rules:
  "first_matching_rule part_rules n =
     (if contains ''dht'' n then Some ''wokwi-dht11''
      else if contains ''ultrasonic'' n \<or> contains ''hc-sr04'' n then Some ''wokwi-hc-sr04''
      else if contains ''lcd'' n then Some ''wokwi-lcd1602''
      else if contains ''oled'' n then Some ''wokwi-ssd1306''
      else if contains ''relay'' n then Some ''wokwi-relay''
      else if contains ''servo'' n then Some ''wokwi-servo''
      else if contains ''led'' n then Some ''wokwi-led''
      else if contains ''buzzer'' n then Some ''wokwi-buzzer''
      else if contains ''gas'' n \<or> contains ''mq'' n then Some ''wokwi-mq2''
      else None)"
  by (simp add: part_rules_def)

lemma first_matching_rule_None:
  "first_matching_rule rules n = None \<longleftrightarrow>
     (\<forall>r \<in> set rules. \<forall>m \<in> set (fst r). \<not> contains m n)"
  by (induction rules n rule: first_matching_rule.induct) (auto simp: list_ex_iff)

lemma lower_literals:
  "lower ''Ultrasonic HC-SR04'' = ''ultrasonic hc-sr04''"
  "lower ''unknown-thing'' = ''unknown-thing''"
  by (simp_all add: lower_def lower_char_def char_of_eq_iff)

text \<open>
  Claim C6. The part-type lookup is the first matching rule of the ordered table
  \<open>dht, ultrasonic|hc-sr04, lcd, oled, relay, servo, led, buzzer, gas|mq\<close>, matched
  by substring on the lower-cased name. Names that differ only in letter case get
  the same part. A name containing \<open>oled\<close> never yields the LED part, and yields the
  SSD1306 part when no earlier rule matches. The result is \<open>None\<close> exactly when no
  marker of the table occurs. \<open>"Ultrasonic HC-SR04"\<close> yields the HC-SR04 part and
  \<open>"unknown-thing"\<close> yields no part.
\<close>

theorem component_to_wokwi_part_lookup:
  "component_to_wokwi_part name = first_matching_rule part_rules (lower name)
   \<and> (lower a = lower b \<longrightarrow> component_to_wokwi_part a = component_to_wokwi_part b)
   \<and> component_to_wokwi_part (lower name) = component_to_wokwi_part name
   \<and> (contains ''oled'' (lower name) \<longrightarrow> component_to_wokwi_part name \<noteq> Some ''wokwi-led'')
   \<and> (contains ''oled'' (lower name) \<and> \<not> contains ''dht'' (lower name)
        \<and> \<not> contains ''ultrasonic'' (lower name) \<and> \<not> contains ''hc-sr04'' (lower name)
        \<and> \<not> contains ''lcd'' (lower name)
      \<longrightarrow> component_to_wokwi_part name = Some ''wokwi-ssd1306'')
   \<and> (component_to_wokwi_part name = None \<longleftrightarrow>
        (\<forall>r \<in> set part_rules. \<forall>m \<in> set (fst r). \<not> contains m (lower name)))
   \<and> component_to_wokwi_part ''Ultrasonic HC-SR04'' = Some ''wokwi-hc-sr04''
   \<and> component_to_wokwi_part ''unknown-thing'' = None"
proof -
  have eq: "\<And>n. component_to_wokwi_part n = first_matching_rule part_rules (lower n)"
    by (simp add: component_to_wokwi_part_def Let_def first_matching_rule_part_rules)
  have ci: "lower a = lower b \<longrightarrow> component_to_wokwi_part a = component_to_wokwi_part b"
    by (simp add: eq)
  have low: "component_to_wokwi_part (lower name) = component_to_wokwi_part name"
    by (simp add: eq lower_idem)
  have oled1: "contains ''oled'' (lower name) \<longrightarrow> component_to_wokwi_part name \<noteq> Some ''wokwi-led''"
    by (simp add: component_to_wokwi_part_def Let_def)
  have oled2: "contains ''oled'' (lower name) \<and> \<not> contains ''dht'' (lower name)
        \<and> \<not> contains ''ultrasonic'' (lower name) \<and> \<not> contains ''hc-sr04'' (lower name)
        \<and> \<not> contains ''lcd'' (lower name)
      \<longrightarrow> component_to_wokwi_part name = Some ''wokwi-ssd1306''"
    by (simp add: component_to_wokwi_part_def Let_def)
  have none: "component_to_wokwi_part name = None \<longleftrightarrow>
        (\<forall>r \<in> set part_rules. \<forall>m \<in> set (fst r). \<not> contains m (lower name))"
    by (simp only: eq first_matching_rule_None)
  have ex1: "component_to_wokwi_part ''Ultrasonic HC-SR04'' = Some ''wokwi-hc-sr04''"
    by (simp add: component_to_wokwi_part_def Let_def lower_literals)
  have ex2: "component_to_wokwi_part ''unknown-thing'' = None"
    by (simp add: component_to_wokwi_part_def Let_def lower_literals)
  from eq ci low oled1 oled2 none ex1 ex2 show ?thesis by blast
qed

lemma lower_oled: "lower ''OLED Display'' = ''oled display''" "lower ''oled DISPLAY'' = ''oled display''"
  by (simp_all add: lower_def lower_char_def char_of_eq_iff)

text \<open>
  Claim C6 at the names \<open>"OLED Display"\<close> and \<open>"oled DISPLAY"\<close>.
\<close>

theorem component_to_wokwi_part_lookup_witness:
  "lower ''OLED Display'' = lower ''oled DISPLAY''
   \<and> component_to_wokwi_part ''OLED Display'' = component_to_wokwi_part ''oled DISPLAY''
   \<and> contains ''oled'' (lower ''OLED Display'')
   \<and> contains ''led'' (lower ''OLED Display'')
   \<and> component_to_wokwi_part ''OLED Display'' = Some ''wokwi-ssd1306''"
proof -
  have h1: "lower ''OLED Display'' = lower ''oled DISPLAY''"
    by (simp add: lower_oled)
  have h2: "contains ''oled'' (lower ''OLED Display'')" "contains ''led'' (lower ''OLED Display'')"
    by (simp_all add: lower_oled)
  have h3: "\<not> contains ''dht'' (lower ''OLED Display'')"
    "\<not> contains ''ultrasonic'' (lower ''OLED Display'')"
    "\<not> contains ''hc-sr04'' (lower ''OLED Display'')"
    "\<not> contains ''lcd'' (lower ''OLED Display'')"
    by (simp_all add: lower_oled)
  show ?thesis
    using component_to_wokwi_part_lookup
            [of "''OLED Display''" "''OLED Display''" "''oled DISPLAY''"] h1 h2 h3
    by blast
qed


section \<open>The layout of the scene\<close>

lemma grid_wrap_iff: "grid_left k + 120 > 180 \<longleftrightarrow> k mod 4 = 3"
proof -
  have "k mod 4 < 4" by simp
  then show ?thesis unfolding grid_left_def by linarith
qed

lemma grid_Suc_wrap:
  assumes "k mod 4 = 3"
  shows "grid_left (Suc k) = - 180" "grid_top (Suc k) = grid_top k + 120"
  using assms by (simp_all add: grid_left_def grid_top_def mod_Suc div_Suc)

lemma grid_Suc_same_row:
  assumes "k mod 4 \<noteq> 3"
  shows "grid_left (Suc k) = grid_left k + 120" "grid_top (Suc k) = grid_top k"
  using assms by (simp_all add: grid_left_def grid_top_def mod_Suc div_Suc)

lemma place_parts_None:
  "component_to_wokwi_part c = None \<Longrightarrow> place_parts (c # cs) x y idx ps = place_parts cs x y idx ps"
  by simp

lemma place_parts_Some:
  "component_to_wokwi_part c = Some p \<Longrightarrow>
   place_parts (c # cs) (grid_left idx) (grid_top idx) idx ps =
   place_parts cs (grid_left (Suc idx)) (grid_top (Suc idx)) (Suc idx) (ps @ [placed idx p])"
  by (cases "idx mod 4 = 3")
     (simp_all add: Let_def placed_def grid_wrap_iff grid_Suc_wrap grid_Suc_same_row)

lemma resolved_parts_simps:
  "resolved_parts [] = []"
  "component_to_wokwi_part c = None \<Longrightarrow> resolved_parts (c # cs) = resolved_parts cs"
  "component_to_wokwi_part c = Some p \<Longrightarrow> resolved_parts (c # cs) = p # resolved_parts cs"
  by (simp_all add: resolved_parts_def map_filter_simps)

lemma place_parts_closed:
  "place_parts cs (grid_left idx) (grid_top idx) idx ps =
     ps @ map (\<lambda>(k, p). placed k p) (enumerate idx (resolved_parts cs))"
proof (induction cs arbitrary: idx ps)
  case Nil
  show ?case by (simp add: resolved_parts_simps)
next
  case (Cons c cs)
  show ?case
  proof (cases "component_to_wokwi_part c")
    case None
    then show ?thesis
      by (simp only: place_parts_None resolved_parts_simps Cons.IH)
  next
    case (Some p)
    then show ?thesis
      by (simp only: place_parts_Some resolved_parts_simps Cons.IH) simp
  qed
qed

lemma grid_next_step: "grid_next (grid_left k, grid_top k) = (grid_left (Suc k), grid_top (Suc k))"
  by (cases "k mod 4 = 3")
     (simp_all add: grid_next_def grid_wrap_iff grid_Suc_wrap grid_Suc_same_row)

lemma grid_next_iter: "(grid_next ^^ k) grid_start = (grid_left k, grid_top k)"
proof (induction k)
  case 0
  show ?case by (simp add: grid_start_def grid_left_def grid_top_def)
next
  case (Suc k)
  have "(grid_next ^^ Suc k) grid_start = grid_next ((grid_next ^^ k) grid_start)" by simp
  also have "\<dots> = grid_next (grid_left k, grid_top k)" by (simp only: Suc)
  finally show ?case by (simp only: grid_next_step)
qed

lemma parts_generate:
  "parts (generate_wokwi_diagram mcu cs) =
     board_part mcu # map (\<lambda>(k, p). placed k p) (enumerate 0 (resolved_parts cs))"
proof -
  have "grid_left 0 = - 180" "grid_top 0 = 140" by (simp_all add: grid_left_def grid_top_def)
  then show ?thesis
    using place_parts_closed [of cs 0 "[board_part mcu]"]
    by (simp add: generate_wokwi_diagram_def board_part_def)
qed

lemma digits_value_snoc: "digits_value (s @ [c]) = 10 * digits_value s + (of_char c - 48)"
  by (simp add: digits_value_def)

lemma of_char_digit_char: "d < 10 \<Longrightarrow> (of_char (digit_char d) :: nat) = 48 + d"
  by (simp add: digit_char_def)

lemma digits_value_str_nat: "digits_value (str_nat n) = n"
proof (induction n rule: str_nat.induct)
  case (1 n)
  show ?case
  proof (cases "n < 10")
    case True
    then show ?thesis
      using digits_value_snoc [of "[]" "digit_char n"]
      by (simp add: str_nat.simps [of n] of_char_digit_char digits_value_def)
  next
    case False
    then have "digits_value (str_nat (n div 10)) = n div 10" using 1 by simp
    then show ?thesis
      using False
      by (simp add: str_nat.simps [of n] digits_value_snoc of_char_digit_char)
  qed
qed

lemma str_nat_inj: "str_nat m = str_nat n \<Longrightarrow> m = n"
  by (metis digits_value_str_nat)

lemma part_ids_generate:
  "map part_id (parts (generate_wokwi_diagram mcu cs)) =
     ''mcu'' # map (\<lambda>k. ''p'' @ str_nat k) [0..<length (resolved_parts cs)]"
proof -
  have "map part_id (map (\<lambda>(k, p). placed k p) (enumerate 0 xs)) =
          map (\<lambda>k. ''p'' @ str_nat k) [0..<length xs]" for xs
    by (rule nth_equalityI) (simp_all add: nth_enumerate_eq placed_def)
  then show ?thesis by (simp add: parts_generate board_part_def)
qed

lemma distinct_part_ids: "distinct (map part_id (parts (generate_wokwi_diagram mcu cs)))"
proof -
  have "inj_on (\<lambda>k. ''p'' @ str_nat k) A" for A
    by (rule inj_onI) (simp add: str_nat_inj)
  then have "distinct (map (\<lambda>k. ''p'' @ str_nat k) [0..<n])" for n
    by (simp add: distinct_map)
  then show ?thesis by (auto simp: part_ids_generate)
qed

lemma length_resolved_parts:
  "length (resolved_parts cs) = length (filter (\<lambda>c. component_to_wokwi_part c \<noteq> None) cs)"
  by (induction cs) (auto simp: resolved_parts_def map_filter_simps split: option.splits)

lemma nth_parts_generate:
  assumes "k < length (resolved_parts cs)"
  shows "parts (generate_wokwi_diagram mcu cs) ! Suc k = placed k (resolved_parts cs ! k)"
  using assms by (simp add: parts_generate nth_enumerate_eq)

lemma length_parts_generate:
  "length (parts (generate_wokwi_diagram mcu cs)) = Suc (length (resolved_parts cs))"
  by (simp add: parts_generate)

lemma five_positions:
  assumes "length xs = 5"
  shows "map (\<lambda>(k, p). (part_left (placed k p), part_top (placed k p))) (enumerate 0 xs) =
           [(- 180, 140), (- 60, 140), (60, 140), (180, 140), (- 180, 260)]"
proof -
  from assms obtain a b c d e where "xs = [a, b, c, d, e]"
    by (auto simp: length_Suc_conv eval_nat_numeral)
  then show ?thesis
    by (simp add: placed_def grid_left_def grid_top_def)
qed

text \<open>
  Claim C5, as amended. The board is the first part, at top 0 and left 0. The \<open>k\<close>-th
  resolvable component (counting from 0, in input order) is the part after it at
  index \<open>1 + k\<close>; its position is reached from \<open>(-180, 140)\<close> by \<open>k\<close> steps of the
  grid rule, which is column \<open>k mod 4\<close> and row \<open>k div 4\<close>. With five resolvable
  components there are five parts after the board: the first four in the row at
  top 140 with left -180, -60, 60, 180, and the fifth at left -180 and top 260.
\<close>

theorem layout_grid:
  "part_id (hd (parts (generate_wokwi_diagram mcu cs))) = ''mcu''
   \<and> part_top (hd (parts (generate_wokwi_diagram mcu cs))) = 0
   \<and> part_left (hd (parts (generate_wokwi_diagram mcu cs))) = 0
   \<and> length (parts (generate_wokwi_diagram mcu cs)) = 1 + length (resolved_parts cs)
   \<and> (k < length (resolved_parts cs) \<longrightarrow>
        part_type (parts (generate_wokwi_diagram mcu cs) ! (1 + k)) = resolved_parts cs ! k
        \<and> (part_left (parts (generate_wokwi_diagram mcu cs) ! (1 + k)),
            part_top (parts (generate_wokwi_diagram mcu cs) ! (1 + k))) = (grid_next ^^ k) grid_start
        \<and> part_left (parts (generate_wokwi_diagram mcu cs) ! (1 + k)) = - 180 + 120 * int (k mod 4)
        \<and> part_top (parts (generate_wokwi_diagram mcu cs) ! (1 + k)) = 140 + 120 * int (k div 4))
   \<and> (length (resolved_parts cs) = 5 \<longrightarrow>
        length (tl (parts (generate_wokwi_diagram mcu cs))) = 5
        \<and> map (\<lambda>q. (part_left q, part_top q)) (tl (parts (generate_wokwi_diagram mcu cs))) =
            [(- 180, 140), (- 60, 140), (60, 140), (180, 140), (- 180, 260)])"
proof -
  let ?ps = "parts (generate_wokwi_diagram mcu cs)"
  have hd: "hd ?ps = board_part mcu" by (simp add: parts_generate)
  have len: "length ?ps = 1 + length (resolved_parts cs)" by (simp add: length_parts_generate)
  have kth: "k < length (resolved_parts cs) \<longrightarrow>
        part_type (?ps ! (1 + k)) = resolved_parts cs ! k
        \<and> (part_left (?ps ! (1 + k)), part_top (?ps ! (1 + k))) = (grid_next ^^ k) grid_start
        \<and> part_left (?ps ! (1 + k)) = - 180 + 120 * int (k mod 4)
        \<and> part_top (?ps ! (1 + k)) = 140 + 120 * int (k div 4)"
    by (simp add: nth_parts_generate grid_next_iter placed_def grid_left_def grid_top_def)
  have five: "length (resolved_parts cs) = 5 \<longrightarrow>
        length (tl ?ps) = 5
        \<and> map (\<lambda>q. (part_left q, part_top q)) (tl ?ps) =
            [(- 180, 140), (- 60, 140), (60, 140), (180, 140), (- 180, 260)]"
  proof
    assume a: "length (resolved_parts cs) = 5"
    have "map (\<lambda>q. (part_left q, part_top q)) (tl ?ps) =
            map (\<lambda>(k, p). (part_left (placed k p), part_top (placed k p)))
              (enumerate 0 (resolved_parts cs))"
      by (simp add: parts_generate case_prod_unfold)
    with a show "length (tl ?ps) = 5
        \<and> map (\<lambda>q. (part_left q, part_top q)) (tl ?ps) =
            [(- 180, 140), (- 60, 140), (60, 140), (180, 140), (- 180, 260)]"
      by (simp add: five_positions length_parts_generate)
  qed
  have h1: "part_id (hd ?ps) = ''mcu''" and h2: "part_top (hd ?ps) = 0"
    and h3: "part_left (hd ?ps) = 0"
    by (simp_all add: hd board_part_def)
  from h1 h2 h3 len kth five show ?thesis by blast
qed

lemma part_literals:
  "component_to_wokwi_part ''DHT11'' = Some ''wokwi-dht11''"
  "component_to_wokwi_part ''LCD1602'' = Some ''wokwi-lcd1602''"
  "component_to_wokwi_part ''Relay'' = Some ''wokwi-relay''"
  "component_to_wokwi_part ''Servo'' = Some ''wokwi-servo''"
  "component_to_wokwi_part ''Buzzer'' = Some ''wokwi-buzzer''"
  "component_to_wokwi_part ''ESP32 Wifi'' = None"
  by code_simp+

lemma resolved_five:
  "resolved_parts [''DHT11'', ''LCD1602'', ''Relay'', ''Servo'', ''Buzzer''] =
     [''wokwi-dht11'', ''wokwi-lcd1602'', ''wokwi-relay'', ''wokwi-servo'', ''wokwi-buzzer'']"
  by (simp add: resolved_parts_simps part_literals)

lemma str_nat_digits:
  "str_nat 0 = ''0''" "str_nat 1 = ''1''" "str_nat 2 = ''2''" "str_nat 3 = ''3''" "str_nat 4 = ''4''"
  by code_simp+

text \<open>
  Claim C5, as amended, at five resolvable components and \<open>k = 4\<close>: the fifth part.
\<close>

theorem layout_grid_witness:
  "(4::nat) < length (resolved_parts [''DHT11'', ''LCD1602'', ''Relay'', ''Servo'', ''Buzzer''])
   \<and> length (resolved_parts [''DHT11'', ''LCD1602'', ''Relay'', ''Servo'', ''Buzzer'']) = 5
   \<and> part_left (parts (generate_wokwi_diagram ''Arduino Uno''
         [''DHT11'', ''LCD1602'', ''Relay'', ''Servo'', ''Buzzer'']) ! (1 + 4)) = - 180
   \<and> part_top (parts (generate_wokwi_diagram ''Arduino Uno''
         [''DHT11'', ''LCD1602'', ''Relay'', ''Servo'', ''Buzzer'']) ! (1 + 4)) = 260
   \<and> length (tl (parts (generate_wokwi_diagram ''Arduino Uno''
         [''DHT11'', ''LCD1602'', ''Relay'', ''Servo'', ''Buzzer'']))) = 5"
proof -
  have h: "(4::nat) < length (resolved_parts [''DHT11'', ''LCD1602'', ''Relay'', ''Servo'', ''Buzzer''])"
    "length (resolved_parts [''DHT11'', ''LCD1602'', ''Relay'', ''Servo'', ''Buzzer'']) = 5"
    by (simp_all add: resolved_five)
  from layout_grid [of "''Arduino Uno''" "[''DHT11'', ''LCD1602'', ''Relay'', ''Servo'', ''Buzzer'']" 4] h
  have "part_left (parts (generate_wokwi_diagram ''Arduino Uno''
         [''DHT11'', ''LCD1602'', ''Relay'', ''Servo'', ''Buzzer'']) ! (1 + 4)) = - 180 + 120 * int (4 mod 4)"
    and "part_top (parts (generate_wokwi_diagram ''Arduino Uno''
         [''DHT11'', ''LCD1602'', ''Relay'', ''Servo'', ''Buzzer'']) ! (1 + 4)) = 140 + 120 * int (4 div 4)"
    and "length (tl (parts (generate_wokwi_diagram ''Arduino Uno''
         [''DHT11'', ''LCD1602'', ''Relay'', ''Servo'', ''Buzzer'']))) = 5"
    by blast+
  with h show ?thesis by simp
qed

lemma fourth_part:
  "parts (generate_wokwi_diagram mcu [''DHT11'', ''LCD1602'', ''Relay'', ''Servo'', ''Buzzer'']) ! 4 =
     placed 3 ''wokwi-servo''"
  using nth_parts_generate [of 3 "[''DHT11'', ''LCD1602'', ''Relay'', ''Servo'', ''Buzzer'']" mcu]
  by (simp add: resolved_five)

text \<open>
  Claim C5 as stated fails: of five resolvable components the fourth placed part,
  with id \<open>p3\<close>, is at left 180 and top 140; it has not wrapped.
\<close>

theorem fourth_part_not_wrapped:
  "length (resolved_parts [''DHT11'', ''LCD1602'', ''Relay'', ''Servo'', ''Buzzer'']) = 5
   \<and> part_id (parts (generate_wokwi_diagram ''Arduino Uno''
         [''DHT11'', ''LCD1602'', ''Relay'', ''Servo'', ''Buzzer'']) ! 4) = ''p3''
   \<and> part_left (parts (generate_wokwi_diagram ''Arduino Uno''
         [''DHT11'', ''LCD1602'', ''Relay'', ''Servo'', ''Buzzer'']) ! 4) = 180
   \<and> part_top (parts (generate_wokwi_diagram ''Arduino Uno''
         [''DHT11'', ''LCD1602'', ''Relay'', ''Servo'', ''Buzzer'']) ! 4) = 140
   \<and> \<not> (part_left (parts (generate_wokwi_diagram ''Arduino Uno''
         [''DHT11'', ''LCD1602'', ''Relay'', ''Servo'', ''Buzzer'']) ! 4) = - 180
        \<and> part_top (parts (generate_wokwi_diagram ''Arduino Uno''
         [''DHT11'', ''LCD1602'', ''Relay'', ''Servo'', ''Buzzer'']) ! 4) = 140 + 120)"
  by (simp add: fourth_part resolved_five placed_def grid_left_def grid_top_def str_nat_digits)

text \<open>
  Claim C7. The board of the scene document and the simulator link are chosen by one
  rule on the lower-cased name: \<open>esp32\<close> first, else \<open>esp8266\<close>, else the Arduino
  default. So the pair of board type and link is one of three fixed pairs, the link
  is one of three fixed strings, and letter case does not matter.
\<close>

theorem board_and_link_agree:
  "part_id (hd (parts (generate_wokwi_diagram mcu cs))) = ''mcu''
   \<and> part_type (hd (parts (generate_wokwi_diagram mcu cs))) = select_board mcu
   \<and> (select_board mcu, get_wokwi_link mcu) =
       (if contains ''esp32'' (lower mcu)
        then (''wokwi-esp32-devkit-v1'', ''https://wokwi.com/projects/new/esp32'')
        else if contains ''esp8266'' (lower mcu)
        then (''wokwi-esp8266'', ''https://wokwi.com/projects/new/esp8266'')
        else (''wokwi-arduino-uno'', ''https://wokwi.com/projects/new/arduino-uno''))
   \<and> get_wokwi_link mcu \<in>
        {''https://wokwi.com/projects/new/esp32'', ''https://wokwi.com/projects/new/esp8266'',
         ''https://wokwi.com/projects/new/arduino-uno''}
   \<and> (lower mcu = lower mcu' \<longrightarrow>
        select_board mcu = select_board mcu' \<and> get_wokwi_link mcu = get_wokwi_link mcu')"
proof -
  have a: "part_id (hd (parts (generate_wokwi_diagram mcu cs))) = ''mcu''"
    "part_type (hd (parts (generate_wokwi_diagram mcu cs))) = select_board mcu"
    by (simp_all add: parts_generate board_part_def)
  have b: "(select_board mcu, get_wokwi_link mcu) =
       (if contains ''esp32'' (lower mcu)
        then (''wokwi-esp32-devkit-v1'', ''https://wokwi.com/projects/new/esp32'')
        else if contains ''esp8266'' (lower mcu)
        then (''wokwi-esp8266'', ''https://wokwi.com/projects/new/esp8266'')
        else (''wokwi-arduino-uno'', ''https://wokwi.com/projects/new/arduino-uno''))"
    by (simp add: select_board_def get_wokwi_link_def Let_def)
  have c: "get_wokwi_link mcu \<in>
        {''https://wokwi.com/projects/new/esp32'', ''https://wokwi.com/projects/new/esp8266'',
         ''https://wokwi.com/projects/new/arduino-uno''}"
    by (simp add: get_wokwi_link_def Let_def)
  have d: "lower mcu = lower mcu' \<longrightarrow>
        select_board mcu = select_board mcu' \<and> get_wokwi_link mcu = get_wokwi_link mcu'"
    by (simp add: select_board_def get_wokwi_link_def Let_def)
  from a b c d show ?thesis by blast
qed

lemma lower_mcu_literals:
  "lower ''ESP32 Dev'' = ''esp32 dev''" "lower ''esp32 DEV'' = ''esp32 dev''"
  by (simp_all add: lower_def lower_char_def char_of_eq_iff)

text \<open>
  Claim C7 at the names \<open>"ESP32 Dev"\<close> and \<open>"esp32 DEV"\<close>.
\<close>

theorem board_and_link_agree_witness:
  "lower ''ESP32 Dev'' = lower ''esp32 DEV''
   \<and> contains ''esp32'' (lower ''ESP32 Dev'')
   \<and> select_board ''ESP32 Dev'' = ''wokwi-esp32-devkit-v1''
   \<and> get_wokwi_link ''ESP32 Dev'' = ''https://wokwi.com/projects/new/esp32''
   \<and> select_board ''esp32 DEV'' = ''wokwi-esp32-devkit-v1''
   \<and> get_wokwi_link ''esp32 DEV'' = ''https://wokwi.com/projects/new/esp32''"
proof -
  have h: "lower ''ESP32 Dev'' = lower ''esp32 DEV''" "contains ''esp32'' (lower ''ESP32 Dev'')"
    by (simp_all add: lower_mcu_literals)
  note t = board_and_link_agree [of "''ESP32 Dev''" "[]" "''esp32 DEV''"]
  from t h have p: "(select_board ''ESP32 Dev'', get_wokwi_link ''ESP32 Dev'') =
      (''wokwi-esp32-devkit-v1'', ''https://wokwi.com/projects/new/esp32'')"
    by simp
  from t h have q: "select_board ''ESP32 Dev'' = select_board ''esp32 DEV''
      \<and> get_wokwi_link ''ESP32 Dev'' = get_wokwi_link ''esp32 DEV''"
    by blast
  from p q h show ?thesis by simp
qed

text \<open>
  Claim C10. The identifiers of the parts are pairwise distinct: \<open>mcu\<close> for the board,
  then \<open>p0\<close>, \<open>p1\<close>, ... in placement order. The parts after the board are as many
  as the components that resolve to a part type, with those types in input order; if
  no component resolves, the board is the only part. The connections are empty.
\<close>

theorem scene_parts_invariants:
  "distinct (map part_id (parts (generate_wokwi_diagram mcu cs)))
   \<and> map part_id (parts (generate_wokwi_diagram mcu cs)) =
        ''mcu'' # map (\<lambda>k. ''p'' @ str_nat k) [0..<length (resolved_parts cs)]
   \<and> length (tl (parts (generate_wokwi_diagram mcu cs))) =
        length (filter (\<lambda>c. component_to_wokwi_part c \<noteq> None) cs)
   \<and> map part_type (tl (parts (generate_wokwi_diagram mcu cs))) = resolved_parts cs
   \<and> ((\<forall>c \<in> set cs. component_to_wokwi_part c = None) \<longrightarrow>
        parts (generate_wokwi_diagram mcu cs) =
          [\<lparr>part_id = ''mcu'', part_type = select_board mcu, part_top = 0, part_left = 0\<rparr>])
   \<and> connections (generate_wokwi_diagram mcu cs) = []"
proof -
  have a: "length (tl (parts (generate_wokwi_diagram mcu cs))) =
        length (filter (\<lambda>c. component_to_wokwi_part c \<noteq> None) cs)"
    by (simp add: parts_generate length_resolved_parts)
  have b: "map part_type (tl (parts (generate_wokwi_diagram mcu cs))) = resolved_parts cs"
    by (rule nth_equalityI) (simp_all add: parts_generate nth_enumerate_eq placed_def)
  have c: "(\<forall>c \<in> set cs. component_to_wokwi_part c = None) \<longrightarrow>
        parts (generate_wokwi_diagram mcu cs) =
          [\<lparr>part_id = ''mcu'', part_type = select_board mcu, part_top = 0, part_left = 0\<rparr>]"
  proof
    assume "\<forall>c \<in> set cs. component_to_wokwi_part c = None"
    then have "filter (\<lambda>c. component_to_wokwi_part c \<noteq> None) cs = []" by (simp add: filter_empty_conv)
    then have "resolved_parts cs = []" using length_resolved_parts [of cs] by simp
    then show "parts (generate_wokwi_diagram mcu cs) =
          [\<lparr>part_id = ''mcu'', part_type = select_board mcu, part_top = 0, part_left = 0\<rparr>]"
      by (simp add: parts_generate board_part_def)
  qed
  have d: "connections (generate_wokwi_diagram mcu cs) = []"
    by (simp add: generate_wokwi_diagram_def)
  from distinct_part_ids [of mcu cs] part_ids_generate [of mcu cs] a b c d show ?thesis by blast
qed

text \<open>
  Claim C10 at a component list in which nothing resolves.
\<close>

theorem scene_parts_invariants_witness:
  "component_to_wokwi_part ''ESP32 Wifi'' = None
   \<and> parts (generate_wokwi_diagram ''ESP32'' [''ESP32 Wifi'']) =
        [\<lparr>part_id = ''mcu'', part_type = select_board ''ESP32'', part_top = 0, part_left = 0\<rparr>]
   \<and> connections (generate_wokwi_diagram ''ESP32'' [''ESP32 Wifi'']) = []"
proof -
  have h: "\<forall>c \<in> set [''ESP32 Wifi'']. component_to_wokwi_part c = None"
    by (simp add: part_literals)
  show ?thesis
    using scene_parts_invariants [of "''ESP32''" "[''ESP32 Wifi'']"] h part_literals(6)
    by blast
qed

section \<open>The domain classifier\<close>

lemma set_set_add: "set (set_add x xs) = insert x (set xs)"
  by (auto simp: set_add_def)

lemma distinct_set_add: "distinct xs \<Longrightarrow> distinct (set_add x xs)"
  by (simp add: set_add_def)

lemma tags_of_unfold:
  "tags_of c =
     (if any_in [''sensor'', ''dht'', ''mq'', ''ultrasonic'', ''ir''] (lower c) then {''sensor''} else {})
   \<union> (if any_in [''lcd'', ''oled'', ''display''] (lower c) then {''display''} else {})
   \<union> (if any_in [''wifi'', ''cloud'', ''mqtt'', ''thingspeak'', ''esp''] (lower c) then {''cloud''} else {})
   \<union> (if any_in [''relay'', ''motor'', ''buzzer'', ''pump'', ''servo''] (lower c) then {''actuator''} else {})"
  unfolding tags_of_def domain_tags_def by (auto split: if_splits)

lemma set_detect_step: "set (detect_step ds c) = set ds \<union> tags_of c"
  unfolding tags_of_unfold by (auto simp: detect_step_def Let_def set_set_add)

lemma distinct_detect_step: "distinct ds \<Longrightarrow> distinct (detect_step ds c)"
  by (simp add: detect_step_def Let_def distinct_set_add)

lemma set_foldl_detect: "set (foldl detect_step ds cs) = set ds \<union> (\<Union>c \<in> set cs. tags_of c)"
  by (induction cs arbitrary: ds) (auto simp: set_detect_step)

lemma distinct_foldl_detect: "distinct ds \<Longrightarrow> distinct (foldl detect_step ds cs)"
  by (induction cs arbitrary: ds) (simp_all add: distinct_detect_step)

lemma set_detect_domains: "set (detect_domains cs) = (\<Union>c \<in> set cs. tags_of c)"
  by (simp add: detect_domains_def set_foldl_detect)

text \<open>
  Claim C4. A tag is in the result of the classifier if and only if it is one of the
  four domain tags and some component name, lower-cased, contains one of the tag's
  markers. The result has no duplicates, any permutation of the input gives the same
  set, the empty input gives the empty result, and
  \<open>["DHT11 sensor", "LCD1602", "ESP32 Wifi"]\<close> gives sensor, display and cloud.
\<close>

theorem detect_domains_classifies:
  "(tag \<in> set (detect_domains cs) \<longleftrightarrow>
      tag \<in> set domain_tags
      \<and> (\<exists>c \<in> set cs. \<exists>m \<in> set (markers_of tag). contains m (lower c)))
   \<and> distinct (detect_domains cs)
   \<and> (mset cs = mset cs' \<longrightarrow> set (detect_domains cs) = set (detect_domains cs'))
   \<and> detect_domains [] = []
   \<and> set (detect_domains [''DHT11 sensor'', ''LCD1602'', ''ESP32 Wifi'']) =
        {''sensor'', ''display'', ''cloud''}"
proof -
  have a: "tag \<in> set (detect_domains cs) \<longleftrightarrow>
      tag \<in> set domain_tags
      \<and> (\<exists>c \<in> set cs. \<exists>m \<in> set (markers_of tag). contains m (lower c))"
    by (auto simp: set_detect_domains tags_of_def any_in_def list_ex_iff)
  have b: "distinct (detect_domains cs)"
    by (simp add: detect_domains_def distinct_foldl_detect)
  have c: "mset cs = mset cs' \<longrightarrow> set (detect_domains cs) = set (detect_domains cs')"
  proof
    assume "mset cs = mset cs'"
    then have "set cs = set cs'" by (rule mset_eq_setD)
    then show "set (detect_domains cs) = set (detect_domains cs')"
      by (simp add: set_detect_domains)
  qed
  have d: "detect_domains [] = []" by (simp add: detect_domains_def)
  have e: "detect_domains [''DHT11 sensor'', ''LCD1602'', ''ESP32 Wifi''] =
        [''sensor'', ''display'', ''cloud'']"
    by code_simp
  have e': "set (detect_domains [''DHT11 sensor'', ''LCD1602'', ''ESP32 Wifi'']) =
        {''sensor'', ''display'', ''cloud''}"
    by (simp add: e)
  from a b c d e' show ?thesis by blast
qed

lemma detect_literals:
  "detect_domains [''LCD1602'', ''DHT11 sensor''] = [''display'', ''sensor'']"
  "detect_domains [''DHT11 sensor'', ''LCD1602''] = [''sensor'', ''display'']"
  by code_simp+

text \<open>
  Claim C4 at two component names in both orders, for the tag \<open>display\<close>.
\<close>

theorem detect_domains_classifies_witness:
  "mset [''LCD1602'', ''DHT11 sensor''] = mset [''DHT11 sensor'', ''LCD1602'']
   \<and> set (detect_domains [''LCD1602'', ''DHT11 sensor'']) =
       set (detect_domains [''DHT11 sensor'', ''LCD1602''])
   \<and> ''display'' \<in> set (detect_domains [''LCD1602'', ''DHT11 sensor''])
   \<and> contains ''lcd'' (lower ''LCD1602'')
   \<and> distinct (detect_domains [''LCD1602'', ''DHT11 sensor''])"
proof -
  have h: "mset [''LCD1602'', ''DHT11 sensor''] = mset [''DHT11 sensor'', ''LCD1602'']"
    by simp
  have k: "contains ''lcd'' (lower ''LCD1602'')" by code_simp
  have m: "''display'' \<in> set (detect_domains [''LCD1602'', ''DHT11 sensor''])"
    by (simp add: detect_literals)
  show ?thesis
    using detect_domains_classifies
            [of "''display''" "[''LCD1602'', ''DHT11 sensor'']" "[''DHT11 sensor'', ''LCD1602'']"]
      h k m
    by blast
qed

section \<open>The progression engine\<close>

lemma award_domains_distinct:
  "distinct ds \<Longrightarrow>
   award_domains uid ds du g =
     (g + (\<Sum>tag\<leftarrow>ds. if (uid, tag) \<in> set du then 5 else 30),
      du @ map (Pair uid) (filter (\<lambda>tag. (uid, tag) \<notin> set du) ds))"
proof (induction ds arbitrary: du g)
  case Nil
  show ?case by simp
next
  case (Cons a ds)
  from Cons.prems have d: "distinct ds" and a: "a \<notin> set ds" by simp_all
  show ?case
  proof (cases "(uid, a) \<in> set du")
    case True
    then show ?thesis using Cons.IH [OF d, of du "g + 5"] by simp
  next
    case False
    have s: "(\<Sum>tag\<leftarrow>ds. if tag = a \<or> (uid, tag) \<in> set du then 5 else (30::int)) =
             (\<Sum>tag\<leftarrow>ds. if (uid, tag) \<in> set du then 5 else 30)"
      by (intro arg_cong [where f = sum_list] map_cong refl) (use a in auto)
    have f: "filter (\<lambda>tag. tag \<noteq> a \<and> (uid, tag) \<notin> set du) ds =
             filter (\<lambda>tag. (uid, tag) \<notin> set du) ds"
      using a by (auto intro!: filter_cong)
    from False show ?thesis
      using Cons.IH [OF d, of "du @ [(uid, a)]" "g + 30"] by (simp add: s f)
  qed
qed

lemma award_domains_ge: "g \<le> fst (award_domains uid ds du g)"
proof (induction ds arbitrary: du g)
  case Nil
  show ?case by simp
next
  case (Cons a ds)
  show ?case
    using Cons.IH [of "g + 5" du] Cons.IH [of "g + 30" "du @ [(uid, a)]"]
    by (simp split: if_splits)
qed

lemma award_domains_rows:
  "set (snd (award_domains uid ds du g)) = set du \<union> Pair uid ` set ds"
  by (induction ds arbitrary: du g) auto

lemma flat_bonus_nonneg: "0 \<le> flat_bonus domains"
  by (simp add: flat_bonus_def)

lemma update_result:
  assumes "users d uid = Some u"
  shows "update_xp_and_streak d uid today domains =
     Inr (d\<lparr>users := (users d)(uid \<mapsto>
               u\<lparr>xp := xp u + (fst (award_domains uid domains (domains_used d) 0) + flat_bonus domains),
                 streak := next_streak today (last_visit u) (streak u),
                 last_visit := Some today\<rparr>),
            domains_used := snd (award_domains uid domains (domains_used d) 0)\<rparr>,
          xp u + (fst (award_domains uid domains (domains_used d) 0) + flat_bonus domains),
          next_streak today (last_visit u) (streak u),
          fst (award_domains uid domains (domains_used d) 0) + flat_bonus domains)"
  using assms by (simp add: update_xp_and_streak_def Let_def case_prod_unfold)

lemma gain_distinct:
  "distinct domains \<Longrightarrow>
   fst (award_domains uid domains (domains_used d) 0) + flat_bonus domains = xp_gain d uid domains"
  by (simp add: award_domains_distinct xp_gain_def flat_bonus_def domain_award_def)


lemma three_domains_sum:
  assumes "distinct domains" and "set domains = {''cloud'', ''display'', ''actuator''}"
  shows "(\<Sum>tag\<leftarrow>domains. f tag) = f ''cloud'' + f ''display'' + (f ''actuator'' :: int)"
proof -
  have "(\<Sum>tag\<leftarrow>domains. f tag) = sum f (set domains)"
    using assms(1) by (rule sum_list_distinct_conv_sum_set)
  also have "\<dots> = f ''cloud'' + f ''display'' + f ''actuator''"
    by (simp add: assms(2))
  finally show ?thesis .
qed

text \<open>
  Claim C1. For a user in the table and a duplicate-free list of detected domains, the
  call returns, and the XP gained is the sum over the domains of 5 for a domain already
  recorded for the user and 30 for a new one, plus 30 if \<open>cloud\<close>, 20 if \<open>display\<close> and
  20 if \<open>actuator\<close> is detected; the new XP is the old XP plus the gain and is stored;
  every detected domain is recorded. Detecting cloud, display and actuator for a user
  new to all three gains 160, and detecting the same set again gains 85.
\<close>

theorem xp_gain_rule:
  "(users d uid = Some u \<and> distinct domains \<longrightarrow>
      (\<exists>d'. update_xp_and_streak d uid today domains =
               Inr (d', xp u + xp_gain d uid domains,
                    next_streak today (last_visit u) (streak u), xp_gain d uid domains)
           \<and> map_option xp (users d' uid) = Some (xp u + xp_gain d uid domains)
           \<and> set (domains_used d') = set (domains_used d) \<union> Pair uid ` set domains))
   \<and> (users d uid = Some u \<and> distinct domains
        \<and> set domains = {''cloud'', ''display'', ''actuator''}
        \<and> (\<forall>tag \<in> set domains. (uid, tag) \<notin> set (domains_used d))
        \<and> update_xp_and_streak d uid today domains = Inr (d', xp', s', g)
        \<and> distinct domains2 \<and> set domains2 = set domains
        \<and> update_xp_and_streak d' uid today2 domains2 = Inr (d'', xp'', s'', g2)
      \<longrightarrow> g = 160 \<and> xp' = xp u + 160 \<and> g2 = 85 \<and> xp'' = xp u + 160 + 85)"
proof -
  have gen: "\<exists>d'. update_xp_and_streak d uid today domains =
               Inr (d', xp u + xp_gain d uid domains,
                    next_streak today (last_visit u) (streak u), xp_gain d uid domains)
           \<and> map_option xp (users d' uid) = Some (xp u + xp_gain d uid domains)
           \<and> set (domains_used d') = set (domains_used d) \<union> Pair uid ` set domains"
    if "users d uid = Some u" "distinct domains"
    using that by (simp add: update_result gain_distinct award_domains_rows)
  have part: "g = 160 \<and> xp' = xp u + 160 \<and> g2 = 85 \<and> xp'' = xp u + 160 + 85"
    if u: "users d uid = Some u" and dis: "distinct domains"
      and three: "set domains = {''cloud'', ''display'', ''actuator''}"
      and new: "\<forall>tag \<in> set domains. (uid, tag) \<notin> set (domains_used d)"
      and r1: "update_xp_and_streak d uid today domains = Inr (d', xp', s', g)"
      and dis2: "distinct domains2" and same: "set domains2 = set domains"
      and r2: "update_xp_and_streak d' uid today2 domains2 = Inr (d'', xp'', s'', g2)"
  proof -
    from gen [OF u dis] r1 have g: "g = xp_gain d uid domains" and x: "xp' = xp u + g"
      and d': "set (domains_used d') = set (domains_used d) \<union> Pair uid ` set domains"
      and u': "map_option xp (users d' uid) = Some xp'"
      by auto
    from new three have aw: "domain_award d uid ''cloud'' = 30"
      "domain_award d uid ''display'' = 30" "domain_award d uid ''actuator'' = 30"
      by (simp_all add: domain_award_def)
    have g160: "g = 160"
      unfolding g xp_gain_def three_domains_sum [OF dis three]
      by (simp add: three aw)
    from u' obtain v where v: "users d' uid = Some v" and xv: "xp v = xp'" by auto
    from r2 v dis2 have g2: "g2 = xp_gain d' uid domains2" and x2: "xp'' = xp v + g2"
      by (simp_all add: update_result gain_distinct)
    from d' three have aw2: "domain_award d' uid ''cloud'' = 5"
      "domain_award d' uid ''display'' = 5" "domain_award d' uid ''actuator'' = 5"
      by (simp_all add: domain_award_def)
    from same three have three2: "set domains2 = {''cloud'', ''display'', ''actuator''}" by simp
    have g85: "g2 = 85"
      unfolding g2 xp_gain_def three_domains_sum [OF dis2 three2]
      by (simp add: three2 aw2)
    from g160 g85 x x2 xv show ?thesis by simp
  qed
  from gen part show ?thesis by blast
qed

lemma xp_gain_set:
  assumes "distinct ds" "distinct ds'" "set ds = set ds'"
  shows "xp_gain d uid ds = xp_gain d uid ds'"
  using assms by (simp add: xp_gain_def sum_list_distinct_conv_sum_set)

lemma update_order_independent:
  assumes "distinct ds" "distinct ds'" "set ds = set ds'"
    and "update_xp_and_streak d uid today ds = Inr (d1, x1, s1, g1)"
    and "update_xp_and_streak d uid today ds' = Inr (d2, x2, s2, g2)"
  shows "x1 = x2 \<and> s1 = s2 \<and> g1 = g2 \<and> users d1 = users d2
         \<and> set (domains_used d1) = set (domains_used d2) \<and> chats d1 = chats d2"
proof -
  from assms(4) obtain u where u: "users d uid = Some u"
    by (auto simp: update_xp_and_streak_def split: option.splits)
  have g: "xp_gain d uid ds = xp_gain d uid ds'" using assms(1-3) by (rule xp_gain_set)
  from assms(4) u assms(1) have a: "x1 = xp u + xp_gain d uid ds" "g1 = xp_gain d uid ds"
    "s1 = next_streak today (last_visit u) (streak u)"
    "users d1 = (users d)(uid \<mapsto> u\<lparr>xp := x1, streak := s1, last_visit := Some today\<rparr>)"
    "set (domains_used d1) = set (domains_used d) \<union> Pair uid ` set ds" "chats d1 = chats d"
    by (auto simp: update_result gain_distinct award_domains_rows)
  from assms(5) u assms(2) have b: "x2 = xp u + xp_gain d uid ds'" "g2 = xp_gain d uid ds'"
    "s2 = next_streak today (last_visit u) (streak u)"
    "users d2 = (users d)(uid \<mapsto> u\<lparr>xp := x2, streak := s2, last_visit := Some today\<rparr>)"
    "set (domains_used d2) = set (domains_used d) \<union> Pair uid ` set ds'" "chats d2 = chats d"
    by (auto simp: update_result gain_distinct award_domains_rows)
  from a b g assms(3) show ?thesis by simp
qed

text \<open>
  Claim C1 at a new user with XP 0: the first detection of cloud, display and actuator
  gains 160 and the second, in another order, gains 85.
\<close>

theorem xp_gain_rule_witness:
  "\<exists>d' s' d'' s''.
     update_xp_and_streak
       \<lparr>users = [1 \<mapsto> \<lparr>xp = 0, streak = 0, last_visit = None\<rparr>], domains_used = [], chats = []\<rparr>
       1 100 [''cloud'', ''display'', ''actuator''] = Inr (d', 160, s', 160)
     \<and> update_xp_and_streak d' 1 101 [''actuator'', ''cloud'', ''display''] = Inr (d'', 245, s'', 85)"
proof -
  let ?u0 = "\<lparr>xp = 0, streak = 0, last_visit = None\<rparr>"
  let ?d0 = "\<lparr>users = [1 \<mapsto> ?u0], domains_used = [], chats = []\<rparr>"
  let ?ds = "[''cloud'', ''display'', ''actuator'']"
  let ?ds2 = "[''actuator'', ''cloud'', ''display'']"
  have u: "users ?d0 1 = Some ?u0" by simp
  have h: "distinct ?ds" "set ?ds = {''cloud'', ''display'', ''actuator''}"
    "distinct ?ds2" "set ?ds2 = set ?ds"
    by auto
  have new: "\<forall>tag \<in> set ?ds. (1, tag) \<notin> set (domains_used ?d0)" by simp
  from xp_gain_rule [of ?d0 1 ?u0 ?ds 100] u h(1)
  obtain d' where r1: "update_xp_and_streak ?d0 1 100 ?ds =
        Inr (d', xp ?u0 + xp_gain ?d0 1 ?ds, next_streak 100 (last_visit ?u0) (streak ?u0),
             xp_gain ?d0 1 ?ds)"
    and x1: "map_option xp (users d' 1) = Some (xp ?u0 + xp_gain ?d0 1 ?ds)"
    by blast
  from x1 obtain v where v: "users d' 1 = Some v" by auto
  from xp_gain_rule [of d' 1 v ?ds2 101] v h(3)
  obtain d'' where r2: "update_xp_and_streak d' 1 101 ?ds2 =
        Inr (d'', xp v + xp_gain d' 1 ?ds2, next_streak 101 (last_visit v) (streak v),
             xp_gain d' 1 ?ds2)"
    by blast
  from xp_gain_rule [of ?d0 1 ?u0 ?ds 100 d' "xp ?u0 + xp_gain ?d0 1 ?ds"
      "next_streak 100 (last_visit ?u0) (streak ?u0)" "xp_gain ?d0 1 ?ds" ?ds2 101 d''
      "xp v + xp_gain d' 1 ?ds2" "next_streak 101 (last_visit v) (streak v)" "xp_gain d' 1 ?ds2"]
    u h new r1 r2
  have n: "xp_gain ?d0 1 ?ds = 160 \<and> xp ?u0 + xp_gain ?d0 1 ?ds = xp ?u0 + 160
      \<and> xp_gain d' 1 ?ds2 = 85 \<and> xp v + xp_gain d' 1 ?ds2 = xp ?u0 + 160 + 85"
    by blast
  from r1 n have r1': "update_xp_and_streak ?d0 1 100 ?ds =
        Inr (d', 160, next_streak 100 (last_visit ?u0) (streak ?u0), 160)"
    by simp
  from r2 n have r2': "update_xp_and_streak d' 1 101 ?ds2 =
        Inr (d'', 245, next_streak 101 (last_visit v) (streak v), 85)"
    by simp
  from r1' r2' show ?thesis by blast
qed

text \<open>
  Claim C2. For a user in the table the call returns and stores the new streak and
  today as the last visit. The new streak is 1 if there was no last visit, the old
  streak plus 1 if the last visit was the day before today, 1 if it was more than one
  day before today, and the old streak if it was today.
\<close>

theorem streak_rule:
  "users d uid = Some u \<longrightarrow>
     (\<exists>d' xp' s' g.
        update_xp_and_streak d uid today domains = Inr (d', xp', s', g)
        \<and> map_option streak (users d' uid) = Some s'
        \<and> map_option last_visit (users d' uid) = Some (Some today)
        \<and> (last_visit u = None \<longrightarrow> s' = 1)
        \<and> (last_visit u = Some (today - 1) \<longrightarrow> s' = streak u + 1)
        \<and> (\<forall>l. last_visit u = Some l \<and> today - l > 1 \<longrightarrow> s' = 1)
        \<and> (last_visit u = Some today \<longrightarrow> s' = streak u))"
  by (auto simp: update_result next_streak_def)

text \<open>
  Claim C3. For a user in the table the call returns; the stored XP is the old XP plus
  a gain that is not negative, so XP never decreases; the new streak is 1, the old
  streak, or the old streak plus 1; the rows of the other users are untouched. For a
  user id that is not in the table the call raises before it writes anything.
\<close>

theorem xp_and_streak_monotone:
  "(users d uid = Some u \<longrightarrow>
     (\<exists>d' u' xp' s' g.
        update_xp_and_streak d uid today domains = Inr (d', xp', s', g)
        \<and> users d' uid = Some u' \<and> xp u' = xp' \<and> streak u' = s'
        \<and> xp' = xp u + g \<and> 0 \<le> g \<and> xp u \<le> xp u'
        \<and> (s' = 1 \<or> s' = streak u \<or> s' = streak u + 1)
        \<and> (\<forall>v. v \<noteq> uid \<longrightarrow> users d' v = users d v)))
   \<and> (users d uid = None \<longrightarrow> update_xp_and_streak d uid today domains = Inl TypeError)"
proof -
  have g: "0 \<le> fst (award_domains uid domains (domains_used d) 0) + flat_bonus domains"
    using award_domains_ge [of 0 uid domains "domains_used d"] flat_bonus_nonneg [of domains]
    by simp
  have s: "next_streak today lv st = 1 \<or> next_streak today lv st = st
           \<or> next_streak today lv st = st + 1" for lv st
    by (simp add: next_streak_def split: option.splits)
  have a: "users d uid = Some u \<longrightarrow>
     (\<exists>d' u' xp' s' g.
        update_xp_and_streak d uid today domains = Inr (d', xp', s', g)
        \<and> users d' uid = Some u' \<and> xp u' = xp' \<and> streak u' = s'
        \<and> xp' = xp u + g \<and> 0 \<le> g \<and> xp u \<le> xp u'
        \<and> (s' = 1 \<or> s' = streak u \<or> s' = streak u + 1)
        \<and> (\<forall>v. v \<noteq> uid \<longrightarrow> users d' v = users d v))"
    using g s [of "last_visit u" "streak u"] by (auto simp: update_result)
  have b: "users d uid = None \<longrightarrow> update_xp_and_streak d uid today domains = Inl TypeError"
    by (simp add: update_xp_and_streak_def)
  from a b show ?thesis by blast
qed


lemma users_single_user_db:
  "users (single_user_db u) 1 = Some u" "users (single_user_db u) 2 = None"
  by (simp_all add: single_user_db_def)

text \<open>
  Claim C2 at the four cases: no last visit, yesterday, three days ago, today.
\<close>

theorem streak_rule_witness:
  "(\<exists>d' xp' g. update_xp_and_streak
        (single_user_db \<lparr>xp = 10, streak = 0, last_visit = None\<rparr>) 1 100 [] =
        Inr (d', xp', 1, g))
   \<and> (\<exists>d' xp' g. update_xp_and_streak
        (single_user_db \<lparr>xp = 10, streak = 5, last_visit = Some 99\<rparr>) 1 100 [] =
        Inr (d', xp', 6, g))
   \<and> (\<exists>d' xp' g. update_xp_and_streak
        (single_user_db \<lparr>xp = 10, streak = 5, last_visit = Some 97\<rparr>) 1 100 [] =
        Inr (d', xp', 1, g))
   \<and> (\<exists>d' xp' g. update_xp_and_streak
        (single_user_db \<lparr>xp = 10, streak = 5, last_visit = Some 100\<rparr>) 1 100 [] =
        Inr (d', xp', 5, g))"
proof -
  have a: "\<exists>d' xp' g. update_xp_and_streak
        (single_user_db \<lparr>xp = 10, streak = 0, last_visit = None\<rparr>) 1 100 [] =
        Inr (d', xp', 1, g)"
    using streak_rule [of "single_user_db \<lparr>xp = 10, streak = 0, last_visit = None\<rparr>" 1
        "\<lparr>xp = 10, streak = 0, last_visit = None\<rparr>" 100 "[]"]
    by (simp add: users_single_user_db) blast
  have b: "\<exists>d' xp' g. update_xp_and_streak
        (single_user_db \<lparr>xp = 10, streak = 5, last_visit = Some 99\<rparr>) 1 100 [] =
        Inr (d', xp', 6, g)"
    using streak_rule [of "single_user_db \<lparr>xp = 10, streak = 5, last_visit = Some 99\<rparr>" 1
        "\<lparr>xp = 10, streak = 5, last_visit = Some 99\<rparr>" 100 "[]"]
    by (simp add: users_single_user_db) blast
  have c: "\<exists>d' xp' g. update_xp_and_streak
        (single_user_db \<lparr>xp = 10, streak = 5, last_visit = Some 97\<rparr>) 1 100 [] =
        Inr (d', xp', 1, g)"
    using streak_rule [of "single_user_db \<lparr>xp = 10, streak = 5, last_visit = Some 97\<rparr>" 1
        "\<lparr>xp = 10, streak = 5, last_visit = Some 97\<rparr>" 100 "[]"]
    by (simp add: users_single_user_db) blast
  have d: "\<exists>d' xp' g. update_xp_and_streak
        (single_user_db \<lparr>xp = 10, streak = 5, last_visit = Some 100\<rparr>) 1 100 [] =
        Inr (d', xp', 5, g)"
    using streak_rule [of "single_user_db \<lparr>xp = 10, streak = 5, last_visit = Some 100\<rparr>" 1
        "\<lparr>xp = 10, streak = 5, last_visit = Some 100\<rparr>" 100 "[]"]
    by (simp add: users_single_user_db) blast
  from a b c d show ?thesis by blast
qed

text \<open>
  Claim C3 at a user with XP 40 and streak 3, and at a user id that is not in the table.
\<close>

theorem xp_and_streak_monotone_witness:
  "users (single_user_db \<lparr>xp = 40, streak = 3, last_visit = Some 99\<rparr>) 1 =
     Some \<lparr>xp = 40, streak = 3, last_visit = Some 99\<rparr>
   \<and> (\<exists>d' u' xp' s' g.
        update_xp_and_streak (single_user_db \<lparr>xp = 40, streak = 3, last_visit = Some 99\<rparr>)
          1 100 [''sensor''] = Inr (d', xp', s', g)
        \<and> users d' 1 = Some u' \<and> 40 \<le> xp u' \<and> (s' = 1 \<or> s' = 3 \<or> s' = 4))
   \<and> users (single_user_db \<lparr>xp = 40, streak = 3, last_visit = Some 99\<rparr>) 2 = None
   \<and> update_xp_and_streak (single_user_db \<lparr>xp = 40, streak = 3, last_visit = Some 99\<rparr>)
          2 100 [''sensor''] = Inl TypeError"
proof -
  let ?u = "\<lparr>xp = 40, streak = 3, last_visit = Some 99\<rparr>"
  have a: "\<exists>d' u' xp' s' g.
        update_xp_and_streak (single_user_db ?u) 1 100 [''sensor''] = Inr (d', xp', s', g)
        \<and> users d' 1 = Some u' \<and> 40 \<le> xp u' \<and> (s' = 1 \<or> s' = 3 \<or> s' = 4)"
    using xp_and_streak_monotone [of "single_user_db ?u" 1 ?u 100 "[''sensor'']"]
    by (simp add: users_single_user_db) blast
  have b: "update_xp_and_streak (single_user_db ?u) 2 100 [''sensor''] = Inl TypeError"
    using xp_and_streak_monotone [of "single_user_db ?u" 2 ?u 100 "[''sensor'']"]
    by (simp add: users_single_user_db)
  from a b show ?thesis by (simp add: users_single_user_db)
qed

section \<open>The design request\<close>

lemma split_from_no_fence:
  "CHR 0x60 \<notin> set s \<Longrightarrow> split_from fence cur (s @ fence) = [rev cur @ s, []]"
proof (induction s arbitrary: cur)
  case Nil
  show ?case by (simp add: fence_def)
next
  case (Cons c s)
  then have "c \<noteq> CHR 0x60" and "CHR 0x60 \<notin> set s" by auto
  then show ?case using Cons.IH [of "c # cur"] by (simp add: fence_def)
qed

lemma strip_id:
  assumes "s \<noteq> []" "\<not> is_space (hd s)" "\<not> is_space (last s)"
  shows "strip s = s"
proof -
  from assms(1,2) have a: "dropWhile is_space s = s" by (cases s) simp_all
  from assms(1,3) have b: "dropWhile is_space (rev s) = rev s"
    by (cases "rev s") (simp_all add: last_rev [symmetric] hd_rev)
  show ?thesis by (simp add: strip_def a b)
qed

lemma response_text_fenced:
  assumes "CHR 0x60 \<notin> set inner"
  shows "response_text (fence @ inner @ fence) = Inr inner"
proof -
  have ns: "\<not> is_space (CHR 0x60)" by (simp add: is_space_def)
  have s: "strip (fence @ inner @ fence) = fence @ inner @ fence"
    by (rule strip_id) (simp_all add: fence_def ns)
  have p: "split_from fence [] (fence @ inner @ fence) = [[], inner, []]"
    using split_from_no_fence [OF assms, of "[]"] by (simp add: fence_def)
  have f: "fence \<noteq> []" by (simp add: fence_def)
  show ?thesis
    by (simp add: response_text_def s split_str_def f p)
qed

lemma get_ai_design_fenced:
  "CHR 0x60 \<notin> set (tag @ body) \<Longrightarrow>
   get_ai_design loads (Inr (fence @ tag @ body @ fence)) = loads (tag @ body)"
  using response_text_fenced [of "tag @ body"] by (simp add: get_ai_design_def)

text \<open>
  Claim C8 at a document of the expected schema. Unfenced, the parser receives the
  document. In a fence without a language tag the parser receives the document between
  two line breaks. In a fence with the language tag \<open>json\<close> the parser receives the
  tag in front of the document: the fence is stripped and the tag is not.
\<close>

theorem language_tag_reaches_parser:
  "response_text example_document = Inr example_document
   \<and> response_text (''```'' @ ''\<newline>'' @ example_document @ ''\<newline>'' @ ''```'') =
       Inr (''\<newline>'' @ example_document @ ''\<newline>'')
   \<and> response_text (''```json'' @ ''\<newline>'' @ example_document @ ''\<newline>'' @ ''```'') =
       Inr (''json'' @ ''\<newline>'' @ example_document @ ''\<newline>'')
   \<and> get_ai_design loads
         (Inr (''```json'' @ ''\<newline>'' @ example_document @ ''\<newline>'' @ ''```'')) =
       loads (''json'' @ ''\<newline>'' @ example_document @ ''\<newline>'')"
proof -
  have a: "response_text example_document = Inr example_document"
    by code_simp
  have b: "response_text (''```'' @ ''\<newline>'' @ example_document @ ''\<newline>'' @ ''```'') =
       Inr (''\<newline>'' @ example_document @ ''\<newline>'')"
    by code_simp
  have c: "response_text (''```json'' @ ''\<newline>'' @ example_document @ ''\<newline>'' @ ''```'') =
       Inr (''json'' @ ''\<newline>'' @ example_document @ ''\<newline>'')"
    by code_simp
  have d: "get_ai_design loads
         (Inr (''```json'' @ ''\<newline>'' @ example_document @ ''\<newline>'' @ ''```'')) =
       loads (''json'' @ ''\<newline>'' @ example_document @ ''\<newline>'')"
    by (simp only: get_ai_design_def c sum.case)
  from a b c d show ?thesis by blast
qed

section \<open>The interaction handler\<close>

text \<open>
  The failure paths that leave the \<open>try\<close> block before the interaction is scored: the
  design request raised, or \<open>data["components"]\<close> raised, or the loop over the
  components raised. On each of them the database is as it was.
\<close>

lemma home_post_design_raised:
  "fst (home_post d uid project today (Inl e)) = d"
  by (simp add: home_post_def home_try_def Let_def split: option.splits)

lemma home_post_components_raise:
  "subscript data ''components'' = Inl e \<Longrightarrow>
   fst (home_post d uid project today (Inr data)) = d"
  by (simp add: home_post_def home_try_def Let_def split: option.splits)

lemma home_post_names_raise:
  "subscript data ''components'' = Inr components \<Longrightarrow>
   component_names components = Inl e \<Longrightarrow>
   fst (home_post d uid project today (Inr data)) = d"
  by (simp add: home_post_def home_try_def Let_def split: option.splits)

lemma home_design_raised:
  "get_ai_design loads response = Inl e \<Longrightarrow>
   fst (home loads d uid project today response) = d"
  by (simp add: home_def home_post_design_raised)

lemma detect_dht11: "detect_domains [''DHT11''] = [''sensor'']"
  by code_simp

lemma update_new_sensor:
  "update_xp_and_streak (single_user_db \<lparr>xp = 0, streak = 0, last_visit = None\<rparr>) 1 100 [''sensor''] =
     Inr ((single_user_db \<lparr>xp = 0, streak = 0, last_visit = None\<rparr>)
            \<lparr>users := (users (single_user_db \<lparr>xp = 0, streak = 0, last_visit = None\<rparr>))
                 (1 \<mapsto> \<lparr>xp = 30, streak = 1, last_visit = Some 100\<rparr>),
             domains_used := [(1, ''sensor'')]\<rparr>, 30, 1, 30)"
  by (simp add: update_xp_and_streak_def users_single_user_db single_user_db_def
        next_streak_def flat_bonus_def)

lemma home_try_without_microcontroller:
  "fst (home_try (single_user_db \<lparr>xp = 0, streak = 0, last_visit = None\<rparr>) l 1 ''lamp'' 100
         (Inr document_without_microcontroller)) =
     (single_user_db \<lparr>xp = 0, streak = 0, last_visit = None\<rparr>)
            \<lparr>users := (users (single_user_db \<lparr>xp = 0, streak = 0, last_visit = None\<rparr>))
                 (1 \<mapsto> \<lparr>xp = 30, streak = 1, last_visit = Some 100\<rparr>),
             domains_used := [(1, ''sensor'')]\<rparr>"
  by (simp add: home_try_def document_without_microcontroller_def component_names_def
        detect_dht11 update_new_sensor Let_def)

lemma home_try_without_microcontroller_data:
  "l_data (snd (home_try (single_user_db \<lparr>xp = 0, streak = 0, last_visit = None\<rparr>) l 1 ''lamp'' 100
         (Inr document_without_microcontroller))) = Some document_without_microcontroller"
proof -
  have m: "subscript document_without_microcontroller ''microcontroller'' = Inl KeyError"
    and c: "subscript document_without_microcontroller ''components'' = Inr (JArr [JStr ''DHT11''])"
    by (simp_all add: document_without_microcontroller_def)
  show ?thesis
    by (simp add: home_try_def m c component_names_def detect_dht11 update_new_sensor Let_def)
qed

lemma render_without_microcontroller:
  "truthy document_without_microcontroller"
  "read_fields document_without_microcontroller required_fields = Some KeyError"
  by (simp_all add: document_without_microcontroller_def required_fields_def)

lemma snd_home_post_without_microcontroller:
  "snd (home_post (single_user_db \<lparr>xp = 0, streak = 0, last_visit = None\<rparr>) 1 ''lamp'' 100
         (Inr document_without_microcontroller)) = Inl KeyError"
  by (simp add: home_post_def users_single_user_db Let_def case_prod_unfold
        home_try_without_microcontroller_data render_without_microcontroller)

text \<open>
  Claim C9 at a document that lacks only the field \<open>microcontroller\<close>, for a new user.
  The design request has failed in the sense of the claim, yet the handler has scored
  the interaction before the missing field is read: the user's row holds XP 30, streak
  1 and today as the last visit, and the sensor domain is recorded. The chat row is not
  written, and the request ends with the \<open>KeyError\<close> that rendering raises. The claim
  asks for the state to be left as it was.
\<close>

theorem missing_microcontroller_still_scores:
  "design_request_fails (Inr document_without_microcontroller)
   \<and> users (single_user_db \<lparr>xp = 0, streak = 0, last_visit = None\<rparr>) 1 =
       Some \<lparr>xp = 0, streak = 0, last_visit = None\<rparr>
   \<and> domains_used (single_user_db \<lparr>xp = 0, streak = 0, last_visit = None\<rparr>) = []
   \<and> users (fst (home_post (single_user_db \<lparr>xp = 0, streak = 0, last_visit = None\<rparr>) 1 ''lamp'' 100
         (Inr document_without_microcontroller))) 1 =
       Some \<lparr>xp = 30, streak = 1, last_visit = Some 100\<rparr>
   \<and> domains_used (fst (home_post (single_user_db \<lparr>xp = 0, streak = 0, last_visit = None\<rparr>) 1
         ''lamp'' 100 (Inr document_without_microcontroller))) = [(1, ''sensor'')]
   \<and> chats (fst (home_post (single_user_db \<lparr>xp = 0, streak = 0, last_visit = None\<rparr>) 1
         ''lamp'' 100 (Inr document_without_microcontroller))) = []
   \<and> snd (home_post (single_user_db \<lparr>xp = 0, streak = 0, last_visit = None\<rparr>) 1
         ''lamp'' 100 (Inr document_without_microcontroller)) = Inl KeyError"
proof -
  let ?d = "single_user_db \<lparr>xp = 0, streak = 0, last_visit = None\<rparr>"
  have f: "design_request_fails (Inr document_without_microcontroller)"
    by (simp add: design_request_fails_def document_without_microcontroller_def required_fields_def)
  have p: "fst (home_post ?d 1 ''lamp'' 100 (Inr document_without_microcontroller)) =
      ?d\<lparr>users := (users ?d)(1 \<mapsto> \<lparr>xp = 30, streak = 1, last_visit = Some 100\<rparr>),
         domains_used := [(1, ''sensor'')]\<rparr>"
    by (simp add: home_post_def users_single_user_db Let_def case_prod_unfold
          home_try_without_microcontroller)
  show ?thesis
    by (simp add: f p snd_home_post_without_microcontroller) (simp add: single_user_db_def)
qed

end
